theory Spec2Isabelle
  imports Complex_Main "HOL-Library.Word"
begin

section \<open>Values of the host language\<close>

text \<open>
  The hooks of \<^verbatim>\<open>src/hooks/usePrepareBet.ts\<close> compute with JavaScript numbers,
  bigints and the text of numbers. A number is either \<open>NaN\<close> or a finite value, which is
  kept exactly as a rational: the binary rounding of IEEE 754 and the two infinities are
  not part of the model. A bigint is an \<open>int\<close>.

  The text of a number is given by the value it denotes and by its notation: plain
  decimal digits (\<^verbatim>\<open>0.5\<close>), digits with an exponent (\<^verbatim>\<open>1e-7\<close>), or no numeral at all
  (\<^verbatim>\<open>NaN\<close>). The notation matters because the two readers of the source differ:
  \<^verbatim>\<open>parseFloat\<close> and unary \<^verbatim>\<open>+\<close> read both notations, \<^verbatim>\<open>parseUnits\<close> reads plain
  digits only.
\<close>

datatype number = NaN | Num rat

datatype numtext = Plain rat | Exponent rat | NotNumeric

datatype error =
    SyntaxError
  | TypeError
  | RangeError
  | IntegerOutOfRangeError
  | Rejected nat

text \<open>
  Errors are values: \<open>Inl e\<close> is a thrown exception or a rejected promise.
  \<open>Rejected n\<close> is a failure of the wallet or of the network, for a reason \<open>n\<close>.
\<close>

definition bind_err :: "error + 'a \<Rightarrow> ('a \<Rightarrow> error + 'b) \<Rightarrow> error + 'b" where
  "bind_err r f = (case r of Inl e \<Rightarrow> Inl e | Inr x \<Rightarrow> f x)"

text \<open>Truthiness of a number: \<open>0\<close> and \<open>NaN\<close> are falsy.\<close>

fun truthy :: "number \<Rightarrow> bool" where
  "truthy NaN = False"
| "truthy (Num q) = (q \<noteq> 0)"

text \<open>
  Arithmetic propagates \<open>NaN\<close>. A quotient by zero is no finite number, hence
  \<open>NaN\<close> here; the source divides by the literal 100 only.
\<close>

instantiation number :: "{plus, minus, times, inverse}"
begin

fun plus_number :: "number \<Rightarrow> number \<Rightarrow> number" where
  "plus_number (Num a) (Num b) = Num (a + b)"
| "plus_number _ _ = NaN"

fun minus_number :: "number \<Rightarrow> number \<Rightarrow> number" where
  "minus_number (Num a) (Num b) = Num (a - b)"
| "minus_number _ _ = NaN"

fun times_number :: "number \<Rightarrow> number \<Rightarrow> number" where
  "times_number (Num a) (Num b) = Num (a * b)"
| "times_number _ _ = NaN"

fun divide_number :: "number \<Rightarrow> number \<Rightarrow> number" where
  "divide_number (Num a) (Num b) = (if b = 0 then NaN else Num (a / b))"
| "divide_number _ _ = NaN"

fun inverse_number :: "number \<Rightarrow> number" where
  "inverse_number (Num a) = (if a = 0 then NaN else Num (inverse a))"
| "inverse_number NaN = NaN"

instance ..

end

text \<open>Rounding to the nearest integer, a tie going away from zero.\<close>

definition roundHalfAway :: "rat \<Rightarrow> int" where
  "roundHalfAway q = (if 0 \<le> q then \<lfloor>q + 1 / 2\<rfloor> else - \<lfloor>- q + 1 / 2\<rfloor>)"

text \<open>
  \<^verbatim>\<open>String(x)\<close> and the template literal \<^verbatim>\<open>`${x}`\<close>: a number is written in plain
  digits when it is zero or its magnitude is at least \<open>10\<^sup>-\<^sup>6\<close> and below \<open>10\<^sup>2\<^sup>1\<close>,
  and with an exponent otherwise.
\<close>

definition plainRange :: "rat \<Rightarrow> bool" where
  "plainRange q = (q = 0 \<or> (1 / 10 ^ 6 \<le> \<bar>q\<bar> \<and> \<bar>q\<bar> < 10 ^ 21))"

fun toText :: "number \<Rightarrow> numtext" where
  "toText NaN = NotNumeric"
| "toText (Num q) = (if plainRange q then Plain q else Exponent q)"

text \<open>\<^verbatim>\<open>parseFloat(t)\<close> and unary \<^verbatim>\<open>+t\<close> on the text of a number.\<close>

fun toNumber :: "numtext \<Rightarrow> number" where
  "toNumber (Plain q) = Num q"
| "toNumber (Exponent q) = Num q"
| "toNumber NotNumeric = NaN"

text \<open>
  \<^verbatim>\<open>x.toFixed(d)\<close>: below \<open>10\<^sup>2\<^sup>1\<close> in magnitude, \<open>x\<close> rounded to \<open>d\<close> decimal places
  and written in plain digits; from there on, the text of \<open>x\<close> itself.
\<close>

fun toFixed :: "number \<Rightarrow> nat \<Rightarrow> numtext" where
  "toFixed NaN d = NotNumeric"
| "toFixed (Num q) d =
     (if \<bar>q\<bar> < 10 ^ 21 then Plain (of_int (roundHalfAway (q * 10 ^ d)) / 10 ^ d)
      else Exponent q)"

text \<open>
  \<^verbatim>\<open>parseUnits(t, d)\<close> of viem: plain decimal text scaled by \<open>10 ^ d\<close>, as a bigint,
  digits beyond the \<open>d\<close>-th place rounded off. It takes the digits before and after the
  decimal point and converts them to a bigint; text with an exponent, or with no numeral,
  is not made of such digits and the conversion throws.
\<close>

fun parseUnits :: "numtext \<Rightarrow> nat \<Rightarrow> error + int" where
  "parseUnits (Plain q) d = Inr (roundHalfAway (q * 10 ^ d))"
| "parseUnits (Exponent q) d = Inl SyntaxError"
| "parseUnits NotNumeric d = Inl SyntaxError"

text \<open>
  \<^verbatim>\<open>formatUnits(raw, d)\<close> of viem: the bigint \<open>raw\<close> written with \<open>d\<close> decimal places,
  always in plain digits.
\<close>

definition formatUnits :: "int \<Rightarrow> nat \<Rightarrow> numtext" where
  "formatUnits raw d = Plain (of_int raw / 10 ^ d)"

text \<open>\<^verbatim>\<open>BigInt(x)\<close> of a number: a \<^verbatim>\<open>RangeError\<close> unless \<open>x\<close> is an integer.\<close>

fun toBigInt :: "number \<Rightarrow> error + int" where
  "toBigInt NaN = Inl RangeError"
| "toBigInt (Num q) = (if of_int \<lfloor>q\<rfloor> = q then Inr \<lfloor>q\<rfloor> else Inl RangeError)"

section \<open>Data of the hook\<close>

type_synonym address = "160 word"
type_synonym txhash = "256 word"
type_synonym abi_word = "256 word"

text \<open>
  A selection's identifiers are given by the bigint that \<^verbatim>\<open>BigInt(conditionId)\<close> and
  \<^verbatim>\<open>BigInt(outcomeId)\<close> yield. The amount, a string or a number in the source, is given
  by the number it denotes: for a number, and for a string that is the text of a number,
  \<^verbatim>\<open>+amount\<close> and \<^verbatim>\<open>parseFloat(String(amount))\<close> are that number. A callback is
  given by whether it is registered; calling it is an event of the trace.
\<close>

record selection =
  conditionId :: int
  outcomeId :: int

record props =
  amount :: number
  slippage :: number
  deadline :: "number option"
  affiliate :: address
  selections :: "selection list"
  onSuccess :: bool
  onError :: bool

record betToken =
  tokenAddress :: address
  isNative :: bool
  decimals :: nat

record contracts =
  proxyFront :: address
  prematchCore :: address
  prematchComboCore :: address
  lp :: address

text \<open>What \<^verbatim>\<open>useChain()\<close> provides; the chain of the application is given by its id.\<close>

record chain =
  appChain :: nat
  contracts :: contracts
  betToken :: betToken

text \<open>
  The constants of \<^verbatim>\<open>../config\<close>. That module is not among the sources, so its
  constants are parameters of the model.
\<close>

record config =
  DEFAULT_DEADLINE :: number
  ODDS_DECIMALS :: nat
  MAX_UINT_256 :: int

text \<open>
  The argument of the \<^verbatim>\<open>bet\<close> call on the proxy front: the liquidity pool, the one
  bet of the list with its extra data, and the native value sent along.
\<close>

record bet_args =
  lpArg :: address
  core :: address
  amountArg :: int
  expiresAt :: int
  affiliateArg :: address
  minOddsArg :: int
  dataArg :: "abi_word list"
  valueArg :: int

text \<open>
  The calls a function makes on its collaborators, in order. How a call on the wallet or
  the network client ends is not decided by the hook: the environment gives the outcome.
\<close>

datatype event =
    WriteApprove address address int
  | WriteBet bet_args
  | WaitForReceipt txhash
  | Refetch
  | OnSuccess
  | OnError "error option"
  | ConsoleError string

record env =
  approveWriteAsync :: "nat + txhash"
  betWriteAsync :: "bet_args \<Rightarrow> nat + txhash"
  waitForTransactionReceipt :: "txhash \<Rightarrow> nat + unit"

section \<open>Allowance and approval\<close>

text \<open>
  \<^verbatim>\<open>isApproveRequired\<close>, lines 54 to 59. The conjunction is evaluated left to right and
  stops at the first falsy operand, so \<^verbatim>\<open>parseUnits\<close> is reached only with a truthy
  amount; what it throws, the render of the hook throws. The allowance read from the token
  contract is an unsigned integer, or absent while the read has not resolved.
\<close>

definition isApproveRequired :: "betToken \<Rightarrow> nat option \<Rightarrow> number \<Rightarrow> error + bool" where
  "isApproveRequired tok allowance amt =
     (if isNative tok then Inr False
      else case allowance of
        None \<Rightarrow> Inr False
      | Some a \<Rightarrow>
          if \<not> truthy amt then Inr False
          else bind_err (parseUnits (toText amt) (decimals tok))
                 (\<lambda>spend. Inr (int a < spend)))"

text \<open>\<^verbatim>\<open>approve\<close>, lines 61 to 65.\<close>

definition approve :: "env \<Rightarrow> config \<Rightarrow> chain \<Rightarrow> (error + unit) \<times> event list" where
  "approve e cfg ch =
     (let w = WriteApprove (tokenAddress (betToken ch))
                (proxyFront (contracts ch)) (MAX_UINT_256 cfg)
      in case approveWriteAsync e of
        Inl n \<Rightarrow> (Inl (Rejected n), [w])
      | Inr tx \<Rightarrow>
          (case waitForTransactionReceipt e tx of
            Inl n \<Rightarrow> (Inl (Rejected n), [w, WaitForReceipt tx])
          | Inr _ \<Rightarrow> (Inr (), [w, WaitForReceipt tx, Refetch])))"

section \<open>Odds\<close>

text \<open>\<^verbatim>\<open>totalOdds\<close>, line 76: absent while the raw odds are absent or \<open>0n\<close>.\<close>

definition totalOdds :: "config \<Rightarrow> int option \<Rightarrow> number option" where
  "totalOdds cfg raw =
     (case raw of
        None \<Rightarrow> None
      | Some r \<Rightarrow> if r = 0 then None else Some (toNumber (formatUnits r (ODDS_DECIMALS cfg))))"

text \<open>The test \<^verbatim>\<open>!totalOdds\<close> of line 100 fails on an absent and on a falsy number.\<close>

fun available :: "number option \<Rightarrow> bool" where
  "available None = False"
| "available (Some t) = truthy t"

text \<open>\<^verbatim>\<open>minOdds\<close>, line 107.\<close>

definition minOdds :: "number \<Rightarrow> number \<Rightarrow> number" where
  "minOdds tot slip = Num 1 + (tot - Num 1) * (Num 100 - slip) / Num 100"

text \<open>\<^verbatim>\<open>fixedMinOdds\<close> and \<^verbatim>\<open>rawMinOdds\<close>, lines 108 and 109.\<close>

definition fixedMinOdds :: "config \<Rightarrow> number \<Rightarrow> number \<Rightarrow> number" where
  "fixedMinOdds cfg tot slip =
     toNumber (toFixed (toNumber (toText (minOdds tot slip))) (ODDS_DECIMALS cfg))"

definition rawMinOdds :: "config \<Rightarrow> number \<Rightarrow> number \<Rightarrow> error + int" where
  "rawMinOdds cfg tot slip =
     parseUnits (toText (fixedMinOdds cfg tot slip)) (ODDS_DECIMALS cfg)"

section \<open>Encoding the selections\<close>

text \<open>
  \<^verbatim>\<open>encodeAbiParameters\<close> of viem, in 32-byte words. An unsigned integer of a given
  width takes one word and is refused when it does not fit the width. The parameters
  \<^verbatim>\<open>uint256, uint64\<close> are two words; the one parameter \<^verbatim>\<open>(uint256, uint64)[]\<close> is
  dynamic: the offset of its data (32), then the number of tuples, then two words for each.
\<close>

definition encodeUint :: "nat \<Rightarrow> int \<Rightarrow> error + abi_word" where
  "encodeUint bits v =
     (if 0 \<le> v \<and> v < 2 ^ bits then Inr (word_of_int v) else Inl IntegerOutOfRangeError)"

definition encodePair :: "int \<times> int \<Rightarrow> error + abi_word list" where
  "encodePair p =
     bind_err (encodeUint 256 (fst p)) (\<lambda>c.
     bind_err (encodeUint 64 (snd p)) (\<lambda>k. Inr [c, k]))"

fun encodeTuples :: "(int \<times> int) list \<Rightarrow> error + abi_word list" where
  "encodeTuples [] = Inr []"
| "encodeTuples (p # ps) =
     bind_err (encodePair p) (\<lambda>ws.
     bind_err (encodeTuples ps) (\<lambda>rest. Inr (ws @ rest)))"

definition encodeTupleArray :: "(int \<times> int) list \<Rightarrow> error + abi_word list" where
  "encodeTupleArray ps =
     bind_err (encodeTuples ps) (\<lambda>ws. Inr (32 # word_of_nat (length ps) # ws))"

text \<open>The readers of the two layouts, to say what a payload decodes to.\<close>

definition decodePair :: "abi_word list \<Rightarrow> (int \<times> int) option" where
  "decodePair ws =
     (case ws of
        [c, k] \<Rightarrow> if uint k < 2 ^ 64 then Some (uint c, uint k) else None
      | _ \<Rightarrow> None)"

fun decodeTuples :: "abi_word list \<Rightarrow> (int \<times> int) list option" where
  "decodeTuples [] = Some []"
| "decodeTuples [c] = None"
| "decodeTuples (c # k # ws) =
     (case decodePair [c, k] of
        None \<Rightarrow> None
      | Some p \<Rightarrow> (case decodeTuples ws of None \<Rightarrow> None | Some ps \<Rightarrow> Some (p # ps)))"

definition decodeTupleArray :: "abi_word list \<Rightarrow> (int \<times> int) list option" where
  "decodeTupleArray ws =
     (case ws of
        off # n # rest \<Rightarrow>
          if off = 32 \<and> length rest = 2 * unat n then decodeTuples rest else None
      | _ \<Rightarrow> None)"

text \<open>
  Lines 112 to 142: the core contract and the payload. A list of at most one selection
  goes to the second branch, which reads \<^verbatim>\<open>selections[0]\<close> and takes its two fields;
  on the empty list that element is \<^verbatim>\<open>undefined\<close> and taking its fields is a
  \<^verbatim>\<open>TypeError\<close>.
\<close>

definition encodeSelections :: "contracts \<Rightarrow> selection list \<Rightarrow> error + address \<times> abi_word list" where
  "encodeSelections cs sels =
     (if length sels > 1 then
        bind_err (encodeTupleArray (map (\<lambda>s. (conditionId s, outcomeId s)) sels))
          (\<lambda>d. Inr (prematchComboCore cs, d))
      else
        (case sels of
           [] \<Rightarrow> Inl TypeError
         | s # _ \<Rightarrow>
             bind_err (encodePair (conditionId s, outcomeId s))
               (\<lambda>d. Inr (prematchCore cs, d))))"

section \<open>Placing the bet\<close>

text \<open>\<^verbatim>\<open>deadline || DEFAULT_DEADLINE\<close> of line 110.\<close>

definition deadlineOrDefault :: "config \<Rightarrow> number option \<Rightarrow> number" where
  "deadlineOrDefault cfg dl =
     (case dl of
        None \<Rightarrow> DEFAULT_DEADLINE cfg
      | Some d \<Rightarrow> if truthy d then d else DEFAULT_DEADLINE cfg)"

text \<open>\<^verbatim>\<open>fixedAmount\<close> and \<^verbatim>\<open>rawAmount\<close>, lines 104 and 105.\<close>

definition fixedAmount :: "betToken \<Rightarrow> number \<Rightarrow> number" where
  "fixedAmount tok amt = toNumber (toFixed (toNumber (toText amt)) (decimals tok))"

definition rawAmount :: "betToken \<Rightarrow> number \<Rightarrow> error + int" where
  "rawAmount tok amt = parseUnits (toText (fixedAmount tok amt)) (decimals tok)"

text \<open>
  Lines 104 to 161 of \<^verbatim>\<open>placeBet\<close>: everything up to the argument of the write. \<open>now\<close> is
  \<^verbatim>\<open>Date.now()\<close>, in milliseconds.
\<close>

definition betArgs :: "config \<Rightarrow> chain \<Rightarrow> props \<Rightarrow> nat \<Rightarrow> number \<Rightarrow> error + bet_args" where
  "betArgs cfg ch p now tot =
     (let tok = betToken ch in
        bind_err (rawAmount tok (amount p)) (\<lambda>rawAmt.
        bind_err (rawMinOdds cfg tot (slippage p)) (\<lambda>rawMin.
        bind_err (toBigInt (Num (of_nat (now div 1000)) + deadlineOrDefault cfg (deadline p)))
          (\<lambda>rawDeadline.
        bind_err (encodeSelections (contracts ch) (selections p)) (\<lambda>(coreAddress, d).
          Inr \<lparr> lpArg = lp (contracts ch),
                core = coreAddress,
                amountArg = rawAmt,
                expiresAt = rawDeadline,
                affiliateArg = affiliate p,
                minOddsArg = rawMin,
                dataArg = d,
                valueArg = (if isNative tok then rawAmt else 0) \<rparr>)))))"

text \<open>\<^verbatim>\<open>placeBet\<close>, lines 99 to 164. \<open>raw\<close> is \<^verbatim>\<open>oddsData.totalOdds\<close>.\<close>

definition placeBet ::
  "env \<Rightarrow> config \<Rightarrow> chain \<Rightarrow> props \<Rightarrow> nat \<Rightarrow> int option \<Rightarrow> (error + unit) \<times> event list" where
  "placeBet e cfg ch p now raw =
     (case totalOdds cfg raw of
        None \<Rightarrow> (Inr (), [])
      | Some tot \<Rightarrow>
          if \<not> truthy tot then (Inr (), [])
          else
            (case betArgs cfg ch p now tot of
               Inl err \<Rightarrow> (Inl err, [])
             | Inr args \<Rightarrow>
                 (case betWriteAsync e args of
                    Inl n \<Rightarrow> (Inl (Rejected n), [WriteBet args])
                  | Inr tx \<Rightarrow>
                      (case waitForTransactionReceipt e tx of
                         Inl n \<Rightarrow> (Inl (Rejected n), [WriteBet args, WaitForReceipt tx])
                       | Inr _ \<Rightarrow> (Inr (), [WriteBet args, WaitForReceipt tx])))))"

text \<open>
  \<^verbatim>\<open>submit\<close>, lines 166 to 172, with the flag computed by the render it belongs to.
\<close>

definition submit ::
  "env \<Rightarrow> config \<Rightarrow> chain \<Rightarrow> props \<Rightarrow> nat \<Rightarrow> int option \<Rightarrow> nat option
     \<Rightarrow> (error + unit) \<times> event list" where
  "submit e cfg ch p now raw allowance =
     (case isApproveRequired (betToken ch) allowance (amount p) of
        Inl err \<Rightarrow> (Inl err, [])
      | Inr required \<Rightarrow>
          if required then approve e cfg ch else placeBet e cfg ch p now raw)"

section \<open>Reactions to the bet receipt\<close>

text \<open>
  \<^verbatim>\<open>betReceipt\<close> as one render sees it, and the two effects of lines 87 to 97. An
  effect with a dependency list runs after the first render and after every render in
  which a dependency differs from its value at the previous render. The state kept from
  render to render is the last value of each dependency, \<open>None\<close> before the first render.
\<close>

record receipt =
  isSuccess :: bool
  isError :: bool
  receiptError :: "error option"

record deps =
  successDep :: "bool option"
  errorDep :: "bool option"

definition changed :: "bool option \<Rightarrow> bool \<Rightarrow> bool" where
  "changed prev cur = (prev \<noteq> Some cur)"

definition effects :: "props \<Rightarrow> deps \<Rightarrow> receipt \<Rightarrow> deps \<times> event list" where
  "effects p st r =
     (\<lparr> successDep = Some (isSuccess r), errorDep = Some (isError r) \<rparr>,
      (if changed (successDep st) (isSuccess r) \<and> isSuccess r \<and> onSuccess p
       then [OnSuccess] else []) @
      (if changed (errorDep st) (isError r) \<and> isError r \<and> onError p
       then [OnError (receiptError r)] else []))"

text \<open>A run of renders, each seeing the receipt of one poll.\<close>

fun renders :: "props \<Rightarrow> deps \<Rightarrow> receipt list \<Rightarrow> deps \<times> event list" where
  "renders p st [] = (st, [])"
| "renders p st (r # rs) =
     (case effects p st r of
        (st', evs) \<Rightarrow> (case renders p st' rs of (st'', evs') \<Rightarrow> (st'', evs @ evs')))"

section \<open>The chain resolver\<close>

text \<open>
  \<^verbatim>\<open>useChainData\<close>. The table \<^verbatim>\<open>chainsData\<close> of \<^verbatim>\<open>../config\<close> is a parameter; the
  active chain is absent while no wallet is connected. The test \<^verbatim>\<open>chain?.id ?\<close> is
  falsy for an absent chain and for the identifier 0.
\<close>

definition useChainData :: "(nat \<rightharpoonup> 'd) \<Rightarrow> nat option \<Rightarrow> 'd option \<times> event list" where
  "useChainData chainsData chainId =
     (let chainData =
        (case chainId of
           None \<Rightarrow> None
         | Some i \<Rightarrow> if i \<noteq> 0 then chainsData i else None)
      in case chainData of
        None \<Rightarrow> (None, [ConsoleError ''Selected network not supported.''])
      | Some d \<Rightarrow> (Some d, []))"

section \<open>Notions of the specification\<close>

text \<open>
  The minimum odds in the words of the specification: one plus the quoted margin over one,
  scaled by the share that the slippage leaves, rounded to \<open>d\<close> decimal places.
\<close>

definition spec_minOdds :: "rat \<Rightarrow> rat \<Rightarrow> nat \<Rightarrow> rat" where
  "spec_minOdds t s d =
     of_int (roundHalfAway ((1 + (t - 1) * ((100 - s) / 100)) * 10 ^ d)) / 10 ^ d"

text \<open>A selection whose identifiers fit \<^verbatim>\<open>uint256\<close> and \<^verbatim>\<open>uint64\<close>.\<close>

definition fitsAbi :: "selection \<Rightarrow> bool" where
  "fitsAbi s =
     (0 \<le> conditionId s \<and> conditionId s < 2 ^ 256 \<and> 0 \<le> outcomeId s \<and> outcomeId s < 2 ^ 64)"

fun wholeNumber :: "number \<Rightarrow> bool" where
  "wholeNumber NaN = False"
| "wholeNumber (Num q) = (of_int \<lfloor>q\<rfloor> = q)"

text \<open>A number that is written in plain digits.\<close>

fun plain :: "number \<Rightarrow> bool" where
  "plain NaN = False"
| "plain (Num q) = plainRange q"

text \<open>
  Inputs with which lines 104 to 110 of \<open>placeBet\<close> do not throw: the amount and the
  minimum odds, rounded, are numbers written in plain digits, and the deadline is a whole
  number of seconds.
\<close>

definition numericInputs :: "config \<Rightarrow> chain \<Rightarrow> props \<Rightarrow> number \<Rightarrow> bool" where
  "numericInputs cfg ch p tot =
     (plain (fixedAmount (betToken ch) (amount p)) \<and>
      plain (fixedMinOdds cfg tot (slippage p)) \<and>
      wholeNumber (deadlineOrDefault cfg (deadline p)))"

section \<open>The events of a trace, and sample values\<close>

fun isOnError :: "event \<Rightarrow> bool" where
  "isOnError (OnError _) = True"
| "isOnError _ = False"

text \<open>
  Sample values, for evaluating the definitions: twelve odds decimals, a non-native token
  with six decimals, one selection, and an environment in which every call succeeds.
\<close>

definition exampleConfig :: config where
  "exampleConfig =
     \<lparr> DEFAULT_DEADLINE = Num 300, ODDS_DECIMALS = 12, MAX_UINT_256 = 2 ^ 256 - 1 \<rparr>"

definition exampleChain :: chain where
  "exampleChain =
     \<lparr> appChain = 100,
       contracts = \<lparr> proxyFront = 2, prematchCore = 3, prematchComboCore = 4, lp = 5 \<rparr>,
       betToken = \<lparr> tokenAddress = 1, isNative = False, decimals = 6 \<rparr> \<rparr>"

definition exampleProps :: props where
  "exampleProps =
     \<lparr> amount = Num 10, slippage = Num 5, deadline = None, affiliate = 6,
       selections = [\<lparr> conditionId = 1, outcomeId = 2 \<rparr>],
       onSuccess = True, onError = True \<rparr>"

definition exampleEnv :: env where
  "exampleEnv =
     \<lparr> approveWriteAsync = Inr 7, betWriteAsync = (\<lambda>_. Inr 8),
       waitForTransactionReceipt = (\<lambda>_. Inr ()) \<rparr>"

definition exampleCombo :: props where
  "exampleCombo =
     exampleProps \<lparr> selections :=
       [\<lparr> conditionId = 1, outcomeId = 2 \<rparr>, \<lparr> conditionId = 3, outcomeId = 4 \<rparr>] \<rparr>"

definition exampleEmpty :: props where
  "exampleEmpty = exampleProps \<lparr> selections := [] \<rparr>"

definition successReceipt :: receipt where
  "successReceipt = \<lparr> isSuccess = True, isError = False, receiptError = None \<rparr>"

definition errorReceipt :: receipt where
  "errorReceipt = \<lparr> isSuccess = False, isError = True, receiptError = Some (Rejected 1) \<rparr>"

definition pendingDeps :: deps where
  "pendingDeps = \<lparr> successDep = Some False, errorDep = Some False \<rparr>"

section \<open>Rounding and the text of numbers\<close>

lemma roundHalfAway_of_int: "roundHalfAway (of_int n) = n"
  unfolding roundHalfAway_def by (auto; linarith)

lemma roundHalfAway_0: "roundHalfAway 0 = 0"
  using roundHalfAway_of_int [of 0] by simp

lemma roundHalfAway_ge:
  assumes "of_int n \<le> q" "0 \<le> n"
  shows "n \<le> roundHalfAway q"
proof -
  have "0 \<le> q" using assms by (meson of_int_0_le_iff order_trans)
  moreover have "n \<le> \<lfloor>q + 1 / 2\<rfloor>" using assms(1) by (simp add: le_floor_iff)
  ultimately show ?thesis by (simp add: roundHalfAway_def)
qed

lemma roundHalfAway_le:
  assumes "0 \<le> q"
  shows "of_int (roundHalfAway q) \<le> q + 1 / 2"
  using assms by (simp add: roundHalfAway_def)

text \<open>Rounding a number of at least 1 to \<open>d\<close> decimal places.\<close>

lemma round_bounds:
  fixes q :: rat
  assumes "1 \<le> q"
  shows "1 \<le> of_int (roundHalfAway (q * 10 ^ d)) / (10 ^ d :: rat)"
    and "of_int (roundHalfAway (q * 10 ^ d)) / (10 ^ d :: rat) \<le> q + 1"
proof -
  have "(of_int (10 ^ d) :: rat) \<le> q * 10 ^ d"
    using assms by simp
  then have "10 ^ d \<le> roundHalfAway (q * 10 ^ d)"
    by (rule roundHalfAway_ge) simp
  then have "(10 ^ d :: rat) \<le> of_int (roundHalfAway (q * 10 ^ d))"
    by (metis of_int_le_iff of_int_numeral of_int_power)
  then show "1 \<le> of_int (roundHalfAway (q * 10 ^ d)) / (10 ^ d :: rat)"
    by (simp add: pos_le_divide_eq)
  have "0 \<le> q * 10 ^ d"
    using assms by simp
  then have "of_int (roundHalfAway (q * 10 ^ d)) \<le> q * 10 ^ d + 1 / 2"
    by (rule roundHalfAway_le)
  also have "\<dots> \<le> q * 10 ^ d + 1 * 10 ^ d"
  proof -
    have "(1::rat) \<le> 10 ^ d" by simp
    then show ?thesis by linarith
  qed
  also have "\<dots> = (q + 1) * 10 ^ d"
    by (simp add: algebra_simps)
  finally show "of_int (roundHalfAway (q * 10 ^ d)) / (10 ^ d :: rat) \<le> q + 1"
    by (simp add: pos_divide_le_eq)
qed

lemma round_plain:
  fixes q :: rat
  assumes "1 \<le> q" "q \<le> 10 ^ 20"
  shows "plainRange (of_int (roundHalfAway (q * 10 ^ d)) / 10 ^ d)"
proof -
  define r :: rat where "r = of_int (roundHalfAway (q * 10 ^ d)) / 10 ^ d"
  have r: "1 \<le> r" "r \<le> q + 1"
    using round_bounds [OF assms(1), of d] by (simp_all add: r_def)
  then have "\<bar>r\<bar> = r" by simp
  moreover have "(1::rat) / 10 ^ 6 \<le> 1" by simp
  moreover have "(10::rat) ^ 20 + 1 < 10 ^ 21" by simp
  ultimately have "1 / 10 ^ 6 \<le> \<bar>r\<bar>" "\<bar>r\<bar> < 10 ^ 21"
    using r assms(2) by linarith+
  then have "plainRange r"
    by (simp only: plainRange_def simp_thms)
  then show ?thesis
    by (simp only: r_def)
qed

lemma toNumber_toText: "toNumber (toText x) = x"
  by (cases x) simp_all

lemma toText_plain: "plain x \<Longrightarrow> \<exists>q. x = Num q \<and> toText x = Plain q"
  by (cases x) simp_all

lemma parseUnits_Inr:
  "parseUnits (toText x) d = Inr r \<Longrightarrow> \<exists>q. x = Num q \<and> plainRange q \<and> r = roundHalfAway (q * 10 ^ d)"
  by (cases x) (auto split: if_splits)

lemma parseUnits_err: "parseUnits t d = Inl err \<Longrightarrow> err = SyntaxError"
  by (cases t) simp_all

lemma bind_err_Inr: "bind_err r f = Inr y \<Longrightarrow> \<exists>x. r = Inr x \<and> f x = Inr y"
  by (cases r) (simp_all add: bind_err_def)

section \<open>When an approval is required\<close>

text \<open>
  For an amount that is written in plain digits, and for a falsy one, the flag is true
  exactly when the token is not native and the allowance is known and strictly below the
  spend that \<open>parseUnits\<close> reads from the amount.
\<close>

lemma isApproveRequired_plain:
  assumes "plain amt \<or> \<not> truthy amt"
  shows "isApproveRequired tok allowance amt =
     Inr (\<not> isNative tok \<and>
          (\<exists>a spend. allowance = Some a \<and>
             parseUnits (toText amt) (decimals tok) = Inr spend \<and> int a < spend))"
proof (cases amt)
  case NaN
  then show ?thesis
    by (simp add: isApproveRequired_def split: option.split)
next
  case (Num q)
  with assms have "plainRange q"
    by (auto simp: plainRange_def)
  with Num show ?thesis
    by (auto simp: isApproveRequired_def bind_err_def roundHalfAway_0 split: option.split)
qed

lemma isApproveRequired_native: "isNative tok \<Longrightarrow> isApproveRequired tok allowance amt = Inr False"
  by (simp add: isApproveRequired_def)

text \<open>
  The example of the specification: amount 10 of a non-native token with 6 decimals against
  an allowance of 5000000 requires an approval; with the allowance at the maximal sentinel
  it does not.
\<close>

lemma isApproveRequired_example:
  "isApproveRequired \<lparr>tokenAddress = 1, isNative = False, decimals = 6\<rparr>
     (Some 5000000) (Num 10) = Inr True"
  "isApproveRequired \<lparr>tokenAddress = 1, isNative = False, decimals = 6\<rparr>
     (Some (2 ^ 256 - 1)) (Num 10) = Inr False"
  by (simp_all add: isApproveRequired_def bind_err_def plainRange_def roundHalfAway_def)

text \<open>
  C1. The claim is that, for every amount, the flag is true exactly when the token is not
  native and the allowance is strictly below the requested spend. It fails for an amount
  that is written with an exponent: for the amount 0.0000001 of a non-native token with 18
  decimals and an allowance of 0 the requested spend is 100000000000 and exceeds the
  allowance, yet the flag is not true: line 58 hands the text \<^verbatim>\<open>1e-7\<close> to
  \<open>parseUnits\<close>, which throws.
\<close>

theorem isApproveRequired_small_amount:
  "isApproveRequired \<lparr>tokenAddress = 1, isNative = False, decimals = 18\<rparr>
     (Some 0) (Num (1 / 10 ^ 7)) = Inl SyntaxError
   \<and> toText (Num (1 / 10 ^ 7)) = Exponent (1 / 10 ^ 7)
   \<and> roundHalfAway (1 / 10 ^ 7 * 10 ^ 18) = 100000000000"
  by code_simp

section \<open>The calls of \<open>approve\<close>, \<open>placeBet\<close> and \<open>submit\<close>\<close>

lemma placeBet_trace_cases:
  "snd (placeBet e cfg ch p now raw) = [] \<or>
   (\<exists>args. snd (placeBet e cfg ch p now raw) = [WriteBet args]) \<or>
   (\<exists>args tx. snd (placeBet e cfg ch p now raw) = [WriteBet args, WaitForReceipt tx])"
  by (auto simp: placeBet_def split: option.split sum.split)

lemma approve_trace_cases:
  "(\<exists>w. snd (approve e cfg ch) = [w] \<and> w \<noteq> Refetch \<and> (\<forall>a. w \<noteq> WriteBet a)) \<or>
   (\<exists>w tx. snd (approve e cfg ch) = [w, WaitForReceipt tx] \<and> w \<noteq> Refetch \<and>
      (\<forall>a. w \<noteq> WriteBet a)) \<or>
   (\<exists>w tx. snd (approve e cfg ch) = [w, WaitForReceipt tx, Refetch] \<and> w \<noteq> Refetch \<and>
      (\<forall>a. w \<noteq> WriteBet a))"
  by (auto simp: approve_def Let_def split: sum.split)

text \<open>
  C6. When the aggregate odds are not available, \<open>placeBet\<close> returns at once: it
  resolves without an error and has called nothing (no write, no wait, no refresh).
\<close>

theorem placeBet_without_odds:
  "\<not> available (totalOdds cfg raw) \<Longrightarrow> placeBet e cfg ch p now raw = (Inr (), [])"
  by (cases "totalOdds cfg raw") (simp_all add: placeBet_def)

theorem placeBet_without_odds_witness:
  "\<not> available (totalOdds exampleConfig None) \<and>
   placeBet exampleEnv exampleConfig exampleChain exampleProps 0 None = (Inr (), [])"
  using placeBet_without_odds [of exampleConfig None exampleEnv exampleChain exampleProps 0]
  by (simp add: totalOdds_def)

text \<open>
  C8. A call of \<open>approve\<close> refreshes the allowance exactly once when the approval is
  written and its confirmation arrives, and not at all otherwise. The refresh is the last
  call, after the wait for the receipt; \<open>placeBet\<close> never refreshes.
\<close>

theorem approve_refetch:
  "length (filter (\<lambda>ev. ev = Refetch) (snd (approve e cfg ch))) =
     (if \<exists>tx. approveWriteAsync e = Inr tx \<and> waitForTransactionReceipt e tx = Inr ()
      then 1 else 0)
   \<and> (Refetch \<in> set (snd (approve e cfg ch)) \<longrightarrow>
        (\<exists>tx. approveWriteAsync e = Inr tx \<and> waitForTransactionReceipt e tx = Inr () \<and>
           snd (approve e cfg ch) =
             [WriteApprove (tokenAddress (betToken ch)) (proxyFront (contracts ch))
                (MAX_UINT_256 cfg),
              WaitForReceipt tx, Refetch]))
   \<and> Refetch \<notin> set (snd (placeBet e cfg ch p now raw))"
proof (intro conjI)
  show "Refetch \<notin> set (snd (placeBet e cfg ch p now raw))"
    using placeBet_trace_cases [of e cfg ch p now raw] by auto
qed (auto simp: approve_def Let_def split: sum.split)

theorem approve_refetch_witness:
  "Refetch \<in> set (snd (approve exampleEnv exampleConfig exampleChain)) \<and>
   snd (approve exampleEnv exampleConfig exampleChain) =
     [WriteApprove 1 2 (2 ^ 256 - 1), WaitForReceipt 7, Refetch]"
  using approve_refetch [of exampleEnv exampleConfig exampleChain exampleProps 0 None]
  by (simp add: exampleEnv_def exampleConfig_def exampleChain_def approve_def)

text \<open>
  C4. One call of \<open>submit\<close> is one call of \<open>approve\<close> when an approval is required,
  and then writes no bet; it is one call of \<open>placeBet\<close> when none is required, and then
  writes no approval. No call of \<open>submit\<close> writes both an approval and a bet.
\<close>

theorem submit_approve_or_bet:
  "(isApproveRequired (betToken ch) allowance (amount p) = Inr True \<longrightarrow>
      submit e cfg ch p now raw allowance = approve e cfg ch \<and>
      (\<forall>a. WriteBet a \<notin> set (snd (submit e cfg ch p now raw allowance))))
   \<and> (isApproveRequired (betToken ch) allowance (amount p) = Inr False \<longrightarrow>
      submit e cfg ch p now raw allowance = placeBet e cfg ch p now raw \<and>
      (\<forall>t s a. WriteApprove t s a \<notin> set (snd (submit e cfg ch p now raw allowance))))
   \<and> \<not> ((\<exists>t s a. WriteApprove t s a \<in> set (snd (submit e cfg ch p now raw allowance))) \<and>
          (\<exists>a. WriteBet a \<in> set (snd (submit e cfg ch p now raw allowance))))"
proof -
  have A: "\<forall>a. WriteBet a \<notin> set (snd (approve e cfg ch))"
    using approve_trace_cases [of e cfg ch] by auto
  have B: "\<forall>t s a. WriteApprove t s a \<notin> set (snd (placeBet e cfg ch p now raw))"
    using placeBet_trace_cases [of e cfg ch p now raw] by auto
  show ?thesis
  proof (cases "isApproveRequired (betToken ch) allowance (amount p)")
    case (Inl err)
    then show ?thesis by (simp add: submit_def)
  next
    case (Inr b)
    then show ?thesis
      using A B by (cases b) (auto simp: submit_def)
  qed
qed

lemma example_approval_required:
  "isApproveRequired (betToken exampleChain) (Some 5000000) (amount exampleProps) = Inr True"
  "isApproveRequired (betToken exampleChain) (Some (2 ^ 256 - 1)) (amount exampleProps)
     = Inr False"
  by (simp_all add: exampleChain_def exampleProps_def isApproveRequired_def bind_err_def
      plainRange_def roundHalfAway_def)

theorem submit_approve_or_bet_witness:
  "isApproveRequired (betToken exampleChain) (Some 5000000) (amount exampleProps) = Inr True \<and>
   submit exampleEnv exampleConfig exampleChain exampleProps 0 (Some 2000000000000) (Some 5000000)
     = approve exampleEnv exampleConfig exampleChain \<and>
   isApproveRequired (betToken exampleChain) (Some (2 ^ 256 - 1)) (amount exampleProps)
     = Inr False \<and>
   submit exampleEnv exampleConfig exampleChain exampleProps 0 (Some 2000000000000)
       (Some (2 ^ 256 - 1))
     = placeBet exampleEnv exampleConfig exampleChain exampleProps 0 (Some 2000000000000)"
  using
    submit_approve_or_bet [of exampleChain "Some 5000000" exampleProps exampleEnv
      exampleConfig 0 "Some 2000000000000"]
    submit_approve_or_bet [of exampleChain "Some (2 ^ 256 - 1)" exampleProps exampleEnv
      exampleConfig 0 "Some 2000000000000"]
    example_approval_required
  by simp

section \<open>The callbacks\<close>

lemma effects_same:
  "effects p \<lparr> successDep = Some (isSuccess r), errorDep = Some (isError r) \<rparr> r =
     (\<lparr> successDep = Some (isSuccess r), errorDep = Some (isError r) \<rparr>, [])"
  by (simp add: effects_def changed_def)

lemma renders_same:
  "renders p \<lparr> successDep = Some (isSuccess r), errorDep = Some (isError r) \<rparr> (replicate n r) =
     (\<lparr> successDep = Some (isSuccess r), errorDep = Some (isError r) \<rparr>, [])"
  by (induction n) (simp_all add: effects_same)

lemma renders_first: "snd (renders p st (replicate (Suc n) r)) = snd (effects p st r)"
  by (simp add: renders_same effects_def split: prod.split)

text \<open>
  C7. Let one render after another see the same receipt \<open>r\<close>, once and then \<open>n\<close> more
  times. If \<open>r\<close> is a success that the render before did not see (or there was no render
  before) and \<open>onSuccess\<close> is registered, \<open>onSuccess\<close> is called exactly once over all
  these renders; likewise \<open>onError\<close>, exactly once and with the error of the receipt. If
  the render before saw the same terminal state already, the callback is not called again.
\<close>

theorem callbacks_fire_once:
  "(isSuccess r \<and> onSuccess p \<and> successDep st \<noteq> Some True \<longrightarrow>
      filter (\<lambda>ev. ev = OnSuccess) (snd (renders p st (replicate (Suc n) r))) = [OnSuccess])
   \<and> (isError r \<and> onError p \<and> errorDep st \<noteq> Some True \<longrightarrow>
      filter isOnError (snd (renders p st (replicate (Suc n) r))) = [OnError (receiptError r)])
   \<and> (successDep st = Some True \<and> isSuccess r \<longrightarrow>
      OnSuccess \<notin> set (snd (renders p st (replicate (Suc n) r))))
   \<and> (errorDep st = Some True \<and> isError r \<longrightarrow>
      (\<forall>x. OnError x \<notin> set (snd (renders p st (replicate (Suc n) r)))))"
  unfolding renders_first by (auto simp: effects_def changed_def)

theorem callbacks_fire_once_witness:
  "snd (renders exampleProps pendingDeps (replicate (Suc (Suc (Suc 0))) successReceipt))
     = [OnSuccess] \<and>
   snd (renders exampleProps pendingDeps (replicate (Suc (Suc (Suc 0))) errorReceipt))
     = [OnError (Some (Rejected 1))] \<and>
   snd (renders exampleProps \<lparr> successDep = Some True, errorDep = Some False \<rparr>
          (replicate (Suc (Suc (Suc 0))) successReceipt)) = [] \<and>
   snd (renders exampleProps \<lparr> successDep = Some False, errorDep = Some True \<rparr>
          (replicate (Suc (Suc (Suc 0))) errorReceipt)) = []"
  using callbacks_fire_once [of successReceipt exampleProps pendingDeps "Suc (Suc 0)"]
    callbacks_fire_once [of errorReceipt exampleProps pendingDeps "Suc (Suc 0)"]
    callbacks_fire_once [of successReceipt exampleProps
      "\<lparr> successDep = Some True, errorDep = Some False \<rparr>" "Suc (Suc 0)"]
    callbacks_fire_once [of errorReceipt exampleProps
      "\<lparr> successDep = Some False, errorDep = Some True \<rparr>" "Suc (Suc 0)"]
  by (simp add: successReceipt_def errorReceipt_def pendingDeps_def exampleProps_def
      effects_def changed_def)

section \<open>The chain resolver\<close>

text \<open>
  C9. Let the configuration table have no entry under the identifier 0. For a chain
  identifier that the table does not have, \<open>useChainData\<close> logs one message and returns
  nothing, without throwing; for one that the table has, it returns the entry and logs
  nothing.
\<close>

theorem useChainData_result:
  "chainsData 0 = None \<Longrightarrow>
   (chainsData i = None \<longrightarrow>
      useChainData chainsData (Some i) =
        (None, [ConsoleError ''Selected network not supported.'']))
   \<and> (\<forall>d. chainsData i = Some d \<longrightarrow> useChainData chainsData (Some i) = (Some d, []))"
  by (auto simp: useChainData_def)

theorem useChainData_result_witness:
  "[100 \<mapsto> ''gnosis''] (0::nat) = None \<and>
   [100 \<mapsto> ''gnosis''] (137::nat) = None \<and>
   useChainData [100 \<mapsto> ''gnosis''] (Some 137) =
     (None, [ConsoleError ''Selected network not supported.'']) \<and>
   [100 \<mapsto> ''gnosis''] (100::nat) = Some ''gnosis'' \<and>
   useChainData [100 \<mapsto> ''gnosis''] (Some 100) = (Some ''gnosis'', [])"
  using useChainData_result [of "[100 \<mapsto> ''gnosis'']" 137]
    useChainData_result [of "[100 \<mapsto> ''gnosis'']" 100]
  by simp

text \<open>
  Without a connected chain, and for the identifier 0 whatever the table holds, the
  resolver takes the branch of the unsupported network.
\<close>

lemma useChainData_no_chain:
  "useChainData chainsData None = (None, [ConsoleError ''Selected network not supported.''])"
  "useChainData chainsData (Some 0) = (None, [ConsoleError ''Selected network not supported.''])"
  by (simp_all add: useChainData_def)

section \<open>The minimum odds\<close>

lemma minOdds_Num: "minOdds (Num t) (Num s) = Num (1 + (t - 1) * (100 - s) / 100)"
  by (simp add: minOdds_def)

lemma spec_minOdds_code:
  "spec_minOdds t s d =
     of_int (roundHalfAway ((1 + (t - 1) * (100 - s) / 100) * 10 ^ d)) / 10 ^ d"
  by (simp add: spec_minOdds_def)

lemma fixedMinOdds_Num:
  "fixedMinOdds cfg (Num t) (Num s) =
     Num (if \<bar>1 + (t - 1) * (100 - s) / 100\<bar> < 10 ^ 21
          then spec_minOdds t s (ODDS_DECIMALS cfg)
          else 1 + (t - 1) * (100 - s) / 100)"
  by (simp add: fixedMinOdds_def toNumber_toText minOdds_Num spec_minOdds_code del: toText.simps)

lemma plainRange_bound: "plainRange q \<Longrightarrow> \<bar>q\<bar> < 10 ^ 21"
  by (auto simp: plainRange_def)

lemma rawMinOdds_scaled:
  assumes "rawMinOdds cfg (Num t) (Num s) = Inr r"
  shows "of_int r = spec_minOdds t s (ODDS_DECIMALS cfg) * 10 ^ ODDS_DECIMALS cfg"
proof -
  let ?x = "1 + (t - 1) * (100 - s) / 100"
  let ?d = "ODDS_DECIMALS cfg"
  obtain q where q: "fixedMinOdds cfg (Num t) (Num s) = Num q" "plainRange q"
    and r: "r = roundHalfAway (q * 10 ^ ?d)"
    using assms parseUnits_Inr unfolding rawMinOdds_def by blast
  have "\<bar>?x\<bar> < 10 ^ 21"
  proof (rule ccontr)
    assume "\<not> \<bar>?x\<bar> < 10 ^ 21"
    then have "q = ?x" using q(1) by (simp add: fixedMinOdds_Num)
    with \<open>\<not> \<bar>?x\<bar> < 10 ^ 21\<close> plainRange_bound [OF q(2)] show False by simp
  qed
  then have "q = spec_minOdds t s ?d"
    using q(1) by (simp add: fixedMinOdds_Num)
  then have "q * 10 ^ ?d = of_int (roundHalfAway (?x * 10 ^ ?d))"
    by (simp add: spec_minOdds_code)
  then have "r = roundHalfAway (?x * 10 ^ ?d)"
    using r by (simp only: roundHalfAway_of_int)
  then show ?thesis
    by (simp add: spec_minOdds_code)
qed

lemma rawMinOdds_plain:
  assumes "plain (fixedMinOdds cfg tot slip)"
  shows "\<exists>r. rawMinOdds cfg tot slip = Inr r"
  using toText_plain [OF assms] by (auto simp: rawMinOdds_def)

lemma placeBet_writes:
  "WriteBet args \<in> set (snd (placeBet e cfg ch p now raw)) \<Longrightarrow>
     \<exists>tot. totalOdds cfg raw = Some tot \<and> truthy tot \<and> betArgs cfg ch p now tot = Inr args"
  by (auto simp: placeBet_def split: option.splits sum.splits if_splits)

lemma betArgs_parts:
  assumes "betArgs cfg ch p now tot = Inr args"
  shows "rawMinOdds cfg tot (slippage p) = Inr (minOddsArg args)"
    and "encodeSelections (contracts ch) (selections p) = Inr (core args, dataArg args)"
    and "rawAmount (betToken ch) (amount p) = Inr (amountArg args)"
  using assms unfolding betArgs_def Let_def
  by (auto dest!: bind_err_Inr split: prod.splits)






lemma minOdds_bounds:
  fixes t s :: rat
  assumes "1 \<le> t" "0 \<le> s" "s \<le> 100"
  shows "1 \<le> 1 + (t - 1) * (100 - s) / 100" and "1 + (t - 1) * (100 - s) / 100 \<le> t"
proof -
  have c: "0 \<le> (100 - s) / 100" "(100 - s) / 100 \<le> 1"
    using assms(2,3) by simp_all
  have "0 \<le> (t - 1) * ((100 - s) / 100)"
    using assms(1) c(1) by simp
  then show "1 \<le> 1 + (t - 1) * (100 - s) / 100"
    by simp
  have "(t - 1) * ((100 - s) / 100) \<le> (t - 1) * 1"
    using assms(1) c(2) by (intro mult_left_mono) simp_all
  then show "1 + (t - 1) * (100 - s) / 100 \<le> t"
    by simp
qed

lemma spec_minOdds_ge_1:
  assumes "1 \<le> t" "0 \<le> s" "s \<le> 100"
  shows "1 \<le> spec_minOdds t s d"
  using round_bounds(1) [OF minOdds_bounds(1) [OF assms]]
  by (simp add: spec_minOdds_code)

lemma spec_minOdds_le:
  assumes "1 \<le> t" "0 \<le> s" "s \<le> 100"
  shows "spec_minOdds t s d \<le> t + 1"
  using round_bounds(2) [OF minOdds_bounds(1) [OF assms], of d] minOdds_bounds(2) [OF assms]
  by (simp add: spec_minOdds_code)

text \<open>
  C5, as the code has it. For total odds of at least 1 and a slippage between 0 and 100,
  the minimum odds that \<open>placeBet\<close> computes are at least 1, and so are the raw minimum
  odds, read with the odds decimals, whenever they are computed; they are computed for
  total odds up to \<open>10\<^sup>2\<^sup>0\<close>. Nothing floors the value: the bound comes from the bound on
  the total odds.
\<close>

theorem minOdds_at_least_one:
  assumes "1 \<le> t" "0 \<le> s" "s \<le> 100"
  shows "\<exists>m. fixedMinOdds cfg (Num t) (Num s) = Num m \<and> 1 \<le> m \<and>
           (\<forall>r. rawMinOdds cfg (Num t) (Num s) = Inr r \<longrightarrow> 10 ^ ODDS_DECIMALS cfg \<le> r) \<and>
           (t \<le> 10 ^ 20 \<longrightarrow> (\<exists>r. rawMinOdds cfg (Num t) (Num s) = Inr r))"
proof -
  let ?d = "ODDS_DECIMALS cfg"
  let ?x = "1 + (t - 1) * (100 - s) / 100"
  let ?m = "if \<bar>?x\<bar> < 10 ^ 21 then spec_minOdds t s ?d else ?x"
  have m: "fixedMinOdds cfg (Num t) (Num s) = Num ?m"
    by (rule fixedMinOdds_Num)
  have ge: "1 \<le> ?m"
    using spec_minOdds_ge_1 [OF assms] minOdds_bounds(1) [OF assms] by simp
  have raw: "10 ^ ?d \<le> r" if "rawMinOdds cfg (Num t) (Num s) = Inr r" for r
  proof -
    have "of_int r = spec_minOdds t s ?d * 10 ^ ?d"
      using that by (rule rawMinOdds_scaled)
    moreover have "1 * 10 ^ ?d \<le> spec_minOdds t s ?d * 10 ^ ?d"
      using spec_minOdds_ge_1 [OF assms] by (intro mult_right_mono) simp_all
    ultimately have "(of_int (10 ^ ?d) :: rat) \<le> of_int r"
      by simp
    then show ?thesis
      by (simp only: of_int_le_iff)
  qed
  have ex: "\<exists>r. rawMinOdds cfg (Num t) (Num s) = Inr r" if "t \<le> 10 ^ 20"
  proof -
    have "\<bar>?x\<bar> < 10 ^ 21"
      using minOdds_bounds [OF assms] that by simp
    then have f: "fixedMinOdds cfg (Num t) (Num s) = Num (spec_minOdds t s ?d)"
      by (simp add: fixedMinOdds_Num)
    have "spec_minOdds t s ?d \<le> 10 ^ 20 + 1"
      using spec_minOdds_le [OF assms, of ?d] that by simp
    then have "plainRange (spec_minOdds t s ?d)"
      using spec_minOdds_ge_1 [OF assms, of ?d] by (simp add: plainRange_def)
    then have "plain (fixedMinOdds cfg (Num t) (Num s))"
      by (simp add: f)
    then show ?thesis
      by (rule rawMinOdds_plain)
  qed
  show ?thesis
    using m ge raw ex by blast
qed

theorem minOdds_at_least_one_witness:
  "(1::rat) \<le> 2 \<and> (0::rat) \<le> 5 \<and> (5::rat) \<le> 100 \<and>
   (\<exists>m. fixedMinOdds exampleConfig (Num 2) (Num 5) = Num m \<and> 1 \<le> m \<and>
      (\<forall>r. rawMinOdds exampleConfig (Num 2) (Num 5) = Inr r \<longrightarrow>
           10 ^ ODDS_DECIMALS exampleConfig \<le> r) \<and>
      ((2::rat) \<le> 10 ^ 20 \<longrightarrow> (\<exists>r. rawMinOdds exampleConfig (Num 2) (Num 5) = Inr r)))"
  using minOdds_at_least_one [of 2 5 exampleConfig] by simp

text \<open>
  For total odds below 1 the claim fails: raw odds of 500000000000 at twelve decimals are
  total odds of one half, and with no slippage \<open>placeBet\<close> writes a bet whose minimum
  odds are one half as well.
\<close>

theorem minOdds_below_one:
  "available (totalOdds exampleConfig (Some 500000000000)) \<and>
   totalOdds exampleConfig (Some 500000000000) = Some (Num (1 / 2)) \<and>
   fixedMinOdds exampleConfig (Num (1 / 2)) (Num 0) = Num (1 / 2) \<and>
   \<not> (1::rat) \<le> 1 / 2 \<and>
   snd (placeBet exampleEnv exampleConfig exampleChain (exampleProps \<lparr> slippage := Num 0 \<rparr>) 0
          (Some 500000000000)) =
     [WriteBet \<lparr> lpArg = 5, core = 3, amountArg = 10000000, expiresAt = 300,
        affiliateArg = 6, minOddsArg = 500000000000, dataArg = [1, 2], valueArg = 0 \<rparr>,
      WaitForReceipt 8]"
  by code_simp

section \<open>The payload\<close>

lemma encodeUint_ok:
  "0 \<le> v \<Longrightarrow> v < 2 ^ bits \<Longrightarrow> encodeUint bits v = Inr (word_of_int v)"
  by (simp add: encodeUint_def)

lemma encodePair_ok:
  "fitsAbi s \<Longrightarrow>
     encodePair (conditionId s, outcomeId s) =
       Inr [word_of_int (conditionId s), word_of_int (outcomeId s)]"
  by (simp add: fitsAbi_def encodePair_def encodeUint_ok bind_err_def)

lemma uint_word_of_int_256:
  "0 \<le> v \<Longrightarrow> v < 2 ^ 256 \<Longrightarrow> uint (word_of_int v :: abi_word) = v"
  by (simp add: uint_word_of_int_eq take_bit_int_eq_self)

lemma decodePair_encoded:
  assumes "fitsAbi s"
  shows "decodePair [word_of_int (conditionId s), word_of_int (outcomeId s)] =
           Some (conditionId s, outcomeId s)"
proof -
  have o: "0 \<le> outcomeId s" "outcomeId s < 2 ^ 64"
    and c: "0 \<le> conditionId s" "conditionId s < 2 ^ 256"
    using assms by (simp_all add: fitsAbi_def)
  have "outcomeId s < 2 ^ 256" using o(2) by (rule less_trans) simp
  then show ?thesis
    using o c by (simp add: decodePair_def uint_word_of_int_256)
qed

lemma encodeTuples_ok:
  "\<forall>s\<in>set sels. fitsAbi s \<Longrightarrow>
     encodeTuples (map (\<lambda>s. (conditionId s, outcomeId s)) sels) =
       Inr (concat (map (\<lambda>s. [word_of_int (conditionId s), word_of_int (outcomeId s)]) sels))"
  by (induction sels) (simp_all add: encodePair_ok bind_err_def)

lemma decodeTuples_encoded:
  "\<forall>s\<in>set sels. fitsAbi s \<Longrightarrow>
     decodeTuples
       (concat (map (\<lambda>s. [word_of_int (conditionId s), word_of_int (outcomeId s)]) sels)) =
       Some (map (\<lambda>s. (conditionId s, outcomeId s)) sels)"
  by (induction sels) (simp_all add: decodePair_encoded)

lemma length_encoded: "length (concat (map (\<lambda>s. [f s, g s]) sels)) = 2 * length sels"
  by (induction sels) simp_all

lemma decodeTupleArray_encoded:
  assumes "\<forall>s\<in>set sels. fitsAbi s" "length sels < 2 ^ 256"
  shows "decodeTupleArray (32 # word_of_nat (length sels) #
            concat (map (\<lambda>s. [word_of_int (conditionId s), word_of_int (outcomeId s)]) sels)) =
         Some (map (\<lambda>s. (conditionId s, outcomeId s)) sels)"
proof -
  have "unat (word_of_nat (length sels) :: abi_word) = length sels"
    using assms(2) by (simp add: unat_of_nat)
  then show ?thesis
    using assms(1) by (simp add: decodeTupleArray_def length_encoded decodeTuples_encoded)
qed

lemma encodeSelections_single:
  "fitsAbi s \<Longrightarrow>
     encodeSelections cs [s] =
       Inr (prematchCore cs, [word_of_int (conditionId s), word_of_int (outcomeId s)])"
  by (simp add: encodeSelections_def encodePair_ok bind_err_def)

lemma encodeSelections_combo:
  "1 < length sels \<Longrightarrow> \<forall>s\<in>set sels. fitsAbi s \<Longrightarrow>
     encodeSelections cs sels =
       Inr (prematchComboCore cs,
            32 # word_of_nat (length sels) #
            concat (map (\<lambda>s. [word_of_int (conditionId s), word_of_int (outcomeId s)]) sels))"
  by (simp add: encodeSelections_def encodeTupleArray_def encodeTuples_ok bind_err_def)

lemma available_Num:
  "available (totalOdds cfg raw) \<Longrightarrow> \<exists>t. totalOdds cfg raw = Some (Num t) \<and> t \<noteq> 0"
  by (auto simp: totalOdds_def formatUnits_def split: option.splits if_splits)

lemma toBigInt_whole:
  assumes "wholeNumber x"
  shows "\<exists>k. toBigInt (Num (of_nat n) + x) = Inr k"
proof (cases x)
  case NaN
  with assms show ?thesis by simp
next
  case (Num q)
  with assms have "wholeNumber (Num q)" by simp
  then have q: "of_int \<lfloor>q\<rfloor> = q" by (simp only: wholeNumber.simps)
  have "of_nat n + q = of_int (int n + \<lfloor>q\<rfloor>)"
    by (simp only: of_int_add of_int_of_nat_eq q)
  then have "of_int \<lfloor>of_nat n + q\<rfloor> = of_nat n + q"
    by (metis floor_of_int)
  then have "toBigInt (Num (of_nat n + q)) = Inr \<lfloor>of_nat n + q\<rfloor>"
    by (simp only: toBigInt.simps refl if_True)
  moreover have "Num (of_nat n) + x = Num (of_nat n + q)"
    using Num by simp
  ultimately show ?thesis by (intro exI) simp
qed

lemma rawAmount_plain:
  assumes "plain (fixedAmount tok amt)"
  shows "\<exists>r. rawAmount tok amt = Inr r"
  using toText_plain [OF assms] by (auto simp: rawAmount_def)

lemma fixedAmount_Num:
  "fixedAmount tok (Num a) =
     Num (if \<bar>a\<bar> < 10 ^ 21 then of_int (roundHalfAway (a * 10 ^ decimals tok)) / 10 ^ decimals tok
          else a)"
  by (simp add: fixedAmount_def toNumber_toText del: toText.simps)

text \<open>
  Lines 104 to 110 do not throw, for one, when the amount and the total odds are between 1
  and \<open>10\<^sup>2\<^sup>0\<close>, the slippage is between 0 and 100 and the deadline is whole.
\<close>

lemma numericInputs_typical:
  assumes "amount p = Num a" "1 \<le> a" "a \<le> 10 ^ 20"
    and "slippage p = Num s" "0 \<le> s" "s \<le> 100"
    and "1 \<le> t" "t \<le> 10 ^ 20"
    and "wholeNumber (deadlineOrDefault cfg (deadline p))"
  shows "numericInputs cfg ch p (Num t)"
proof -
  have "\<bar>a\<bar> < 10 ^ 21" using assms(2,3) by simp
  then have "plain (fixedAmount (betToken ch) (amount p))"
    using round_plain [OF assms(2,3)] by (simp add: assms(1) fixedAmount_Num)
  moreover have "plain (fixedMinOdds cfg (Num t) (slippage p))"
  proof -
    let ?x = "1 + (t - 1) * (100 - s) / 100"
    have x: "1 \<le> ?x" "?x \<le> 10 ^ 20"
      using minOdds_bounds [OF assms(7,5,6)] assms(8) by simp_all
    then have "\<bar>?x\<bar> < 10 ^ 21" by simp
    then show ?thesis
      using round_plain [OF x] by (simp add: assms(4) fixedMinOdds_Num spec_minOdds_code)
  qed
  ultimately show ?thesis
    using assms(9) by (simp add: numericInputs_def)
qed

text \<open>With numeric inputs, \<open>betArgs\<close> ends as the encoding of the selections does.\<close>

lemma betArgs_numeric:
  assumes "numericInputs cfg ch p tot"
  shows "(\<forall>c d. encodeSelections (contracts ch) (selections p) = Inr (c, d) \<longrightarrow>
            (\<exists>args. betArgs cfg ch p now tot = Inr args))
       \<and> (\<forall>err. encodeSelections (contracts ch) (selections p) = Inl err \<longrightarrow>
            betArgs cfg ch p now tot = Inl err)"
proof -
  obtain a where a: "rawAmount (betToken ch) (amount p) = Inr a"
    using assms rawAmount_plain unfolding numericInputs_def by blast
  obtain m where m: "rawMinOdds cfg tot (slippage p) = Inr m"
    using assms rawMinOdds_plain unfolding numericInputs_def by blast
  have "wholeNumber (deadlineOrDefault cfg (deadline p))"
    using assms by (simp add: numericInputs_def)
  then obtain k where
    k: "toBigInt (Num (of_nat (now div 1000)) + deadlineOrDefault cfg (deadline p)) = Inr k"
    using toBigInt_whole by blast
  show ?thesis
    by (simp add: betArgs_def Let_def a m k bind_err_def)
qed

lemma placeBet_reached:
  assumes "totalOdds cfg raw = Some tot" "truthy tot" "betArgs cfg ch p now tot = Inr args"
  shows "\<exists>tr. snd (placeBet e cfg ch p now raw) = WriteBet args # tr"
  using assms by (simp add: placeBet_def split: sum.split)

text \<open>
  C2. Let the odds be available and let the selections be a non-empty list whose
  identifiers fit \<^verbatim>\<open>uint256\<close> and \<^verbatim>\<open>uint64\<close>. Then lines 112 to 142 yield a core
  address and a payload. For one selection these are the address of the single-bet core
  and two words that decode to that selection's condition and outcome; for more than one
  they are the address of the combo core and an array that decodes to the selections'
  pairs, as many and in the order of the list. Every bet that \<open>placeBet\<close> writes has this
  core and this payload, and \<open>placeBet\<close> does write one when lines 104 to 110 do not throw.
\<close>

theorem placeBet_target_and_payload:
  assumes "available (totalOdds cfg raw)" and "selections p \<noteq> []"
    and "\<forall>s\<in>set (selections p). fitsAbi s" and "length (selections p) < 2 ^ 256"
  shows "\<exists>c d. encodeSelections (contracts ch) (selections p) = Inr (c, d)
     \<and> (\<forall>s. selections p = [s] \<longrightarrow>
           c = prematchCore (contracts ch) \<and>
           d = [word_of_int (conditionId s), word_of_int (outcomeId s)] \<and>
           decodePair d = Some (conditionId s, outcomeId s))
     \<and> (1 < length (selections p) \<longrightarrow>
           c = prematchComboCore (contracts ch) \<and>
           length d = 2 + 2 * length (selections p) \<and>
           decodeTupleArray d = Some (map (\<lambda>s. (conditionId s, outcomeId s)) (selections p)))
     \<and> (\<forall>args. WriteBet args \<in> set (snd (placeBet e cfg ch p now raw)) \<longrightarrow>
           core args = c \<and> dataArg args = d)
     \<and> (\<forall>tot. totalOdds cfg raw = Some tot \<and> numericInputs cfg ch p tot \<longrightarrow>
           (\<exists>args tr. snd (placeBet e cfg ch p now raw) = WriteBet args # tr))"
proof -
  let ?cs = "contracts ch"
  let ?sels = "selections p"
  obtain t where t: "totalOdds cfg raw = Some (Num t)" "t \<noteq> 0"
    using available_Num [OF assms(1)] by blast
  have writes: "core args = c \<and> dataArg args = d"
    if enc: "encodeSelections ?cs ?sels = Inr (c, d)"
      and w: "WriteBet args \<in> set (snd (placeBet e cfg ch p now raw))" for c d args
  proof -
    obtain tot where "betArgs cfg ch p now tot = Inr args"
      using placeBet_writes [OF w] by blast
    then have "encodeSelections ?cs ?sels = Inr (core args, dataArg args)"
      by (rule betArgs_parts(2))
    with enc show ?thesis by simp
  qed
  have reach: "\<exists>args tr. snd (placeBet e cfg ch p now raw) = WriteBet args # tr"
    if enc: "encodeSelections ?cs ?sels = Inr (c, d)"
      and ni: "totalOdds cfg raw = Some tot \<and> numericInputs cfg ch p tot" for c d tot
  proof -
    have tot: "tot = Num t" using ni t(1) by simp
    obtain args where args: "betArgs cfg ch p now (Num t) = Inr args"
      using betArgs_numeric [of cfg ch p "Num t" now] ni enc tot by blast
    have "truthy (Num t)" using t(2) by simp
    then show ?thesis
      using placeBet_reached [OF t(1) _ args] by blast
  qed
  show ?thesis
  proof (cases "1 < length ?sels")
    case True
    let ?d = "32 # word_of_nat (length ?sels) #
            concat (map (\<lambda>s. [word_of_int (conditionId s), word_of_int (outcomeId s)]) ?sels)"
    have enc: "encodeSelections ?cs ?sels = Inr (prematchComboCore ?cs, ?d)"
      using True assms(3) by (rule encodeSelections_combo)
    have dec: "decodeTupleArray ?d = Some (map (\<lambda>s. (conditionId s, outcomeId s)) ?sels)"
      using assms(3,4) by (rule decodeTupleArray_encoded)
    have len: "length ?d = 2 + 2 * length ?sels"
      by (simp add: length_encoded)
    have single: "\<forall>s. ?sels = [s] \<longrightarrow> P s" for P
      using True by auto
    show ?thesis
      using enc dec len single writes [OF enc] reach [OF enc]
      by (intro exI [of _ "prematchComboCore ?cs"] exI [of _ ?d]) blast
  next
    case False
    with assms(2) obtain s where s: "?sels = [s]"
      by (cases ?sels) auto
    then have f: "fitsAbi s" using assms(3) by simp
    let ?d = "[word_of_int (conditionId s), word_of_int (outcomeId s)] :: abi_word list"
    have enc: "encodeSelections ?cs ?sels = Inr (prematchCore ?cs, ?d)"
      using encodeSelections_single [OF f] s by simp
    have dec: "decodePair ?d = Some (conditionId s, outcomeId s)"
      using f by (rule decodePair_encoded)
    show ?thesis
      using enc dec s False writes [OF enc] reach [OF enc]
      by (intro exI [of _ "prematchCore ?cs"] exI [of _ ?d]) auto
  qed
qed

theorem placeBet_target_and_payload_witness:
  "available (totalOdds exampleConfig (Some 2000000000000)) \<and>
   list_all fitsAbi (selections exampleProps) \<and>
   numericInputs exampleConfig exampleChain exampleProps (Num 2) \<and>
   snd (placeBet exampleEnv exampleConfig exampleChain exampleProps 0 (Some 2000000000000)) =
     [WriteBet \<lparr> lpArg = 5, core = 3, amountArg = 10000000, expiresAt = 300,
        affiliateArg = 6, minOddsArg = 1950000000000, dataArg = [1, 2], valueArg = 0 \<rparr>,
      WaitForReceipt 8] \<and>
   decodePair [1, 2] = Some (1, 2) \<and>
   list_all fitsAbi (selections exampleCombo) \<and>
   snd (placeBet exampleEnv exampleConfig exampleChain exampleCombo 0 (Some 2000000000000)) =
     [WriteBet \<lparr> lpArg = 5, core = 4, amountArg = 10000000, expiresAt = 300,
        affiliateArg = 6, minOddsArg = 1950000000000, dataArg = [32, 2, 1, 2, 3, 4],
        valueArg = 0 \<rparr>,
      WaitForReceipt 8] \<and>
   decodeTupleArray [32, 2, 1, 2, 3, 4] = Some [(1, 2), (3, 4)]"
proof -
  have a: "available (totalOdds exampleConfig (Some 2000000000000))"
    by code_simp
  have f1: "\<forall>s\<in>set (selections exampleProps). fitsAbi s"
    by (simp add: exampleProps_def fitsAbi_def)
  have f2: "\<forall>s\<in>set (selections exampleCombo). fitsAbi s"
    by (simp add: exampleCombo_def exampleProps_def fitsAbi_def)
  have n1: "selections exampleProps \<noteq> []" "length (selections exampleProps) < 2 ^ 256"
    by (simp_all add: exampleProps_def)
  have n2: "selections exampleCombo \<noteq> []" "length (selections exampleCombo) < 2 ^ 256"
    by (simp_all add: exampleCombo_def)
  have e1: "snd (placeBet exampleEnv exampleConfig exampleChain exampleProps 0
        (Some 2000000000000)) =
     [WriteBet \<lparr> lpArg = 5, core = 3, amountArg = 10000000, expiresAt = 300,
        affiliateArg = 6, minOddsArg = 1950000000000, dataArg = [1, 2], valueArg = 0 \<rparr>,
      WaitForReceipt 8]"
    by code_simp
  have e2: "snd (placeBet exampleEnv exampleConfig exampleChain exampleCombo 0
        (Some 2000000000000)) =
     [WriteBet \<lparr> lpArg = 5, core = 4, amountArg = 10000000, expiresAt = 300,
        affiliateArg = 6, minOddsArg = 1950000000000, dataArg = [32, 2, 1, 2, 3, 4],
        valueArg = 0 \<rparr>,
      WaitForReceipt 8]"
    by code_simp
  have ni: "numericInputs exampleConfig exampleChain exampleProps (Num 2)"
    by code_simp
  have d: "decodePair [1, 2] = Some (1, 2)"
    "decodeTupleArray [32, 2, 1, 2, 3, 4] = Some [(1, 2), (3, 4)]"
    by code_simp+
  from placeBet_target_and_payload [OF a n1(1) f1 n1(2), of exampleChain exampleEnv 0]
    placeBet_target_and_payload [OF a n2(1) f2 n2(2), of exampleChain exampleEnv 0]
  show ?thesis
    using a f1 f2 e1 e2 ni d by (simp add: list_all_iff)
qed

section \<open>The element read in the single-selection branch\<close>

lemma encodePair_err: "encodePair q = Inl err \<Longrightarrow> err = IntegerOutOfRangeError"
  by (auto simp: encodePair_def encodeUint_def bind_err_def split: if_splits)

lemma encodeTuples_err: "encodeTuples ps = Inl err \<Longrightarrow> err = IntegerOutOfRangeError"
proof (induction ps)
  case Nil
  then show ?case by simp
next
  case (Cons q ps)
  then show ?case
    by (auto simp: bind_err_def dest: encodePair_err split: sum.splits)
qed

lemma encodeSelections_TypeError:
  "(encodeSelections cs sels = Inl TypeError) = (sels = [])"
proof (cases sels)
  case Nil
  then show ?thesis by (simp add: encodeSelections_def)
next
  case (Cons s rest)
  have "encodeSelections cs (s # rest) \<noteq> Inl TypeError"
    by (auto simp: encodeSelections_def encodeTupleArray_def bind_err_def
        dest: encodePair_err encodeTuples_err split: sum.splits)
  with Cons show ?thesis by simp
qed

lemma toBigInt_err: "toBigInt x = Inl err \<Longrightarrow> err = RangeError"
  by (cases x) (simp_all split: if_splits)

lemma betArgs_TypeError:
  "betArgs cfg ch p now tot = Inl TypeError \<Longrightarrow>
     encodeSelections (contracts ch) (selections p) = Inl TypeError"
  unfolding betArgs_def Let_def rawMinOdds_def rawAmount_def
  by (auto simp: bind_err_def dest: parseUnits_err toBigInt_err split: sum.splits prod.splits)

lemma placeBet_TypeError:
  "fst (placeBet e cfg ch p now raw) = Inl TypeError \<Longrightarrow> selections p = []"
  by (auto simp: placeBet_def encodeSelections_TypeError
      dest!: betArgs_TypeError split: option.splits sum.splits if_splits)

text \<open>
  C10. A list of at most one selection, the empty list too, is handled by the second
  branch, which reads the element at index 0. Encoding the selections fails with the
  \<^verbatim>\<open>TypeError\<close> of that read exactly when index 0 is out of bounds, that is, when
  the list is empty. So no call of \<open>placeBet\<close> with a non-empty list ends in that error,
  and a call with the empty list and available odds, in which lines 104 to 110 do not
  throw, does.
\<close>

theorem selections_index_in_bounds:
  "(length (selections p) \<le> 1 \<longrightarrow>
      encodeSelections cs (selections p) =
        (case selections p of
           [] \<Rightarrow> Inl TypeError
         | s # _ \<Rightarrow>
             bind_err (encodePair (conditionId s, outcomeId s)) (\<lambda>d. Inr (prematchCore cs, d))))
   \<and> (encodeSelections cs (selections p) \<noteq> Inl TypeError) = (0 < length (selections p))
   \<and> (fst (placeBet e cfg ch p now raw) = Inl TypeError \<longrightarrow> selections p = [])
   \<and> (\<forall>tot. totalOdds cfg raw = Some tot \<and> truthy tot \<and> numericInputs cfg ch p tot \<and>
          selections p = [] \<longrightarrow>
        placeBet e cfg ch p now raw = (Inl TypeError, []))"
proof (intro conjI impI allI)
  show "encodeSelections cs (selections p) =
        (case selections p of
           [] \<Rightarrow> Inl TypeError
         | s # _ \<Rightarrow>
             bind_err (encodePair (conditionId s, outcomeId s)) (\<lambda>d. Inr (prematchCore cs, d)))"
    if "length (selections p) \<le> 1"
    using that by (simp add: encodeSelections_def)
  show "(encodeSelections cs (selections p) \<noteq> Inl TypeError) = (0 < length (selections p))"
    by (simp add: encodeSelections_TypeError)
  show "selections p = []" if "fst (placeBet e cfg ch p now raw) = Inl TypeError"
    using that by (rule placeBet_TypeError)
  show "placeBet e cfg ch p now raw = (Inl TypeError, [])"
    if h: "totalOdds cfg raw = Some tot \<and> truthy tot \<and> numericInputs cfg ch p tot \<and>
          selections p = []" for tot
  proof -
    have "encodeSelections (contracts ch) (selections p) = Inl TypeError"
      using h by (simp add: encodeSelections_TypeError)
    then have "betArgs cfg ch p now tot = Inl TypeError"
      using betArgs_numeric [of cfg ch p tot now] h by blast
    with h show ?thesis by (simp add: placeBet_def)
  qed
qed

theorem selections_index_in_bounds_witness:
  "totalOdds exampleConfig (Some 2000000000000) = Some (Num 2) \<and> truthy (Num 2) \<and>
   numericInputs exampleConfig exampleChain exampleEmpty (Num 2) \<and>
   selections exampleEmpty = [] \<and>
   placeBet exampleEnv exampleConfig exampleChain exampleEmpty 0 (Some 2000000000000)
     = (Inl TypeError, []) \<and>
   length (selections exampleProps) \<le> 1 \<and>
   encodeSelections (contracts exampleChain) (selections exampleProps) = Inr (3, [1, 2])"
proof -
  have a: "totalOdds exampleConfig (Some 2000000000000) = Some (Num 2)" "truthy (Num 2)"
    by code_simp+
  have n: "numericInputs exampleConfig exampleChain exampleEmpty (Num 2)"
    by code_simp
  have s: "selections exampleEmpty = []" "length (selections exampleProps) \<le> 1"
    by (simp_all add: exampleEmpty_def exampleProps_def)
  have e: "encodeSelections (contracts exampleChain) (selections exampleProps)
      = Inr (3, [1, 2])"
    by code_simp
  from selections_index_in_bounds [of exampleEmpty "contracts exampleChain" exampleEnv
      exampleConfig exampleChain 0 "Some 2000000000000"]
  have "placeBet exampleEnv exampleConfig exampleChain exampleEmpty 0 (Some 2000000000000)
     = (Inl TypeError, [])"
    using a n s(1) by blast
  with a n s e show ?thesis
    by (intro conjI)
qed

end
